theory Spec2Isabelle
  imports Complex_Main "HOL-Library.Word"
begin

section \<open>Python strings and slices\<close>

text \<open>
  A Python \<open>str\<close> is modelled as a \<open>string\<close> (a list of 8-bit characters), so the
  model covers the texts whose code points lie below 256.  Indices are Python
  integers (\<open>int\<close>): a negative slice bound counts from the end and every bound
  is clamped to the length, as \<open>text[i:j]\<close> and \<open>text.rfind(c, i, j)\<close> do.
  \<open>is_space\<close> is \<open>str.isspace\<close> on that range, the characters \<open>str.strip()\<close> removes.
\<close>

definition is_space :: "char \<Rightarrow> bool" where
  "is_space c \<longleftrightarrow>
     (let k = (of_char c :: nat)
      in (9 \<le> k \<and> k \<le> 13) \<or> (28 \<le> k \<and> k \<le> 32) \<or> k = 133 \<or> k = 160)"

definition strip :: "string \<Rightarrow> string" where
  "strip s = rev (dropWhile is_space (rev (dropWhile is_space s)))"

definition py_idx :: "nat \<Rightarrow> int \<Rightarrow> nat" where
  "py_idx n i = (if i < 0 then nat (max 0 (int n + i)) else min (nat i) n)"

definition py_slice :: "'a list \<Rightarrow> int \<Rightarrow> int \<Rightarrow> 'a list" where
  "py_slice xs i j =
     (let a = py_idx (length xs) i; b = py_idx (length xs) j
      in take (b - a) (drop a xs))"

definition rfind :: "char \<Rightarrow> string \<Rightarrow> int \<Rightarrow> int \<Rightarrow> int" where
  "rfind c s i j =
     (let a = py_idx (length s) i; b = py_idx (length s) j
      in case filter (\<lambda>k. s ! k = c) (rev [a..<b]) of
           [] \<Rightarrow> - 1
         | k # _ \<Rightarrow> int k)"

definition lower_char :: "char \<Rightarrow> char" where
  "lower_char c =
     (let k = (of_char c :: nat)
      in if (65 \<le> k \<and> k \<le> 90) \<or> (192 \<le> k \<and> k \<le> 222 \<and> k \<noteq> 215)
         then char_of (k + 32) else c)"

definition lower :: "string \<Rightarrow> string" where
  "lower s = map lower_char s"

definition endswith :: "string \<Rightarrow> string \<Rightarrow> bool" where
  "endswith s suffix \<longleftrightarrow>
     length suffix \<le> length s \<and> drop (length s - length suffix) s = suffix"

definition digit_char :: "nat \<Rightarrow> char" where
  "digit_char d = ''0123456789'' ! d"

fun str_nat :: "nat \<Rightarrow> string" where
  "str_nat n =
     (if n < 10 then [digit_char n]
      else str_nat (n div 10) @ [digit_char (n mod 10)])"

declare str_nat.simps [simp del]

section \<open>Exceptions, the clock and identifiers\<close>

text \<open>
  A raised exception is a value: its class and the text \<open>str(e)\<close> gives.  A function
  that can raise returns \<open>error + 'a\<close>, with \<open>Inl\<close> for the exception.  Only
  subclasses of \<open>Exception\<close> are modelled, the ones \<open>except Exception\<close> catches.
\<close>

datatype exc_class =
  ValueError | KeyError | IndexError | TypeError | ValidationError
  | ConnectionError | RuntimeError

datatype error = Err exc_class string

fun str_of_error :: "error \<Rightarrow> string" where
  "str_of_error (Err _ msg) = msg"

text \<open>
  \<open>datetime.utcnow()\<close> and \<open>uuid.uuid4()\<close> are the two sources of values the program
  does not compute.  The world records what they deliver: \<open>clock w k\<close> is the
  \<open>k\<close>-th reading of the wall clock (an instant, counted in seconds) and \<open>uuids w k\<close>
  the \<open>k\<close>-th identifier; the counters say how many have been taken.
\<close>

type_synonym datetime = nat

record world =
  clock :: "nat \<Rightarrow> datetime"
  reads :: nat
  uuids :: "nat \<Rightarrow> string"
  drawn :: nat

definition utcnow :: "world \<Rightarrow> datetime \<times> world" where
  "utcnow w = (clock w (reads w), w\<lparr>reads := Suc (reads w)\<rparr>)"

definition uuid4 :: "world \<Rightarrow> string \<times> world" where
  "uuid4 w = (uuids w (drawn w), w\<lparr>drawn := Suc (drawn w)\<rparr>)"

text \<open>
  The functions of \<open>datetime\<close> the program calls are parameters:
  \<open>isoformat\<close>, \<open>fromisoformat\<close> (\<open>None\<close> when it raises \<open>ValueError\<close>) and
  \<open>strftime('%Y-%m-%d %H:%M')\<close>.
\<close>

record dt_lib =
  isoformat :: "datetime \<Rightarrow> string"
  fromisoformat :: "string \<Rightarrow> datetime option"
  strftime_minute :: "datetime \<Rightarrow> string"

section \<open>The text chunker (\<open>VectorStore._chunk_text\<close>)\<close>

text \<open>
  \<open>settings.chunk_size\<close> and \<open>settings.chunk_overlap\<close> are the first two arguments.
  The \<open>while\<close> loop can run forever, so it is a partial function: \<open>None\<close> is the run
  that never returns.
\<close>

definition chunk_end :: "int \<Rightarrow> string \<Rightarrow> int \<Rightarrow> int" where
  "chunk_end chunk_size text start =
     (let end = start + chunk_size
      in if end < int (length text) then
           (let search_start = max (end - 100) start;
                sentence_end = rfind CHR ''.'' text search_start end
            in if sentence_end > start then sentence_end + 1 else end)
         else end)"

partial_function (option) chunk_loop ::
  "int \<Rightarrow> int \<Rightarrow> string \<Rightarrow> int \<Rightarrow> string list \<Rightarrow> string list option" where
  "chunk_loop chunk_size chunk_overlap text start chunks =
     (if start < int (length text) then
        (let end = chunk_end chunk_size text start;
             chunk = strip (py_slice text start end);
             chunks' = (if chunk \<noteq> [] then chunks @ [chunk] else chunks);
             start' = end - chunk_overlap
         in if start' \<ge> int (length text) then Some chunks'
            else chunk_loop chunk_size chunk_overlap text start' chunks')
      else Some chunks)"

declare chunk_loop.simps [code]

definition chunk_text :: "int \<Rightarrow> int \<Rightarrow> string \<Rightarrow> string list option" where
  "chunk_text chunk_size chunk_overlap text =
     (if int (length text) \<le> chunk_size then Some [text]
      else chunk_loop chunk_size chunk_overlap text 0 [])"


section \<open>The vector store (\<open>VectorStore\<close>)\<close>

subsection \<open>Data\<close>

text \<open>
  A metadata dictionary maps keys to the scalars ChromaDB stores.  Floats are
  modelled as reals.  \<open>truthy\<close> is Python's truth value of such a scalar.
\<close>

datatype pyval = VStr string | VInt int | VFloat real | VBool bool

type_synonym metadata = "string \<rightharpoonup> pyval"

fun truthy :: "pyval \<Rightarrow> bool" where
  "truthy (VStr s) = (s \<noteq> [])"
| "truthy (VInt i) = (i \<noteq> 0)"
| "truthy (VFloat x) = (x \<noteq> 0)"
| "truthy (VBool b) = b"

text \<open>
  \<open>MemoryEntry\<close> of \<open>api/schemas/models.py\<close>.  Two fields with defaults are left out:
  \<open>embedding\<close>, which the store never sets, and \<open>created_at\<close>, a clock reading no
  operation of the store looks at.
\<close>

record memory_entry =
  me_id :: string
  me_content :: string
  me_customer :: "string option"
  me_project :: "string option"
  me_date :: datetime
  me_source_document_id :: string
  me_chunk_index :: int
  me_importance_score :: real
  me_metadata :: metadata

text \<open>
  The ChromaDB collection is a finite map from identifiers to stored rows.  Its
  operations are modelled as the library documents them: \<open>add\<close> refuses an identifier
  that is already stored, \<open>get\<close> returns the rows of the given identifiers that exist,
  \<open>delete\<close> removes what is there and does not mind a missing identifier.
\<close>

record row =
  row_embedding :: "real list"
  row_metadata :: metadata
  row_document :: string

type_synonym collection = "string \<rightharpoonup> row"

record get_result =
  gr_ids :: "string list"
  gr_metadatas :: "metadata list"
  gr_documents :: "string list"

definition collection_add ::
  "collection \<Rightarrow> string \<Rightarrow> real list \<Rightarrow> metadata \<Rightarrow> string \<Rightarrow> error + collection" where
  "collection_add col i embedding md doc =
     (if col i \<noteq> None then Inl (Err ValueError (''ID already exists: '' @ i))
      else Inr (col(i \<mapsto> \<lparr>row_embedding = embedding, row_metadata = md, row_document = doc\<rparr>)))"

definition collection_get :: "collection \<Rightarrow> string \<Rightarrow> get_result" where
  "collection_get col i =
     (case col i of
        None \<Rightarrow> \<lparr>gr_ids = [], gr_metadatas = [], gr_documents = []\<rparr>
      | Some r \<Rightarrow> \<lparr>gr_ids = [i], gr_metadatas = [row_metadata r], gr_documents = [row_document r]\<rparr>)"

definition collection_delete :: "collection \<Rightarrow> string \<Rightarrow> collection" where
  "collection_delete col i = col(i := None)"

text \<open>
  The result of \<open>collection.query\<close> for one query embedding: lists of lists, one inner
  list per query.  \<open>qr_distances\<close> is \<open>None\<close> when the key holds \<open>None\<close>.  The type \<open>'f\<close>
  of the distances is any type with \<open>0\<close>, \<open>1\<close>, subtraction and an order, so that
  nothing below depends on how floats round or compare.
\<close>

record 'f query_result =
  qr_ids :: "string list list"
  qr_metadatas :: "metadata list list"
  qr_documents :: "string list list"
  qr_distances :: "'f list list option"

text \<open>The \<open>where\<close> clause built from the filters: a dictionary with at most three keys.\<close>

record where_clause =
  wc_customer :: "pyval option"
  wc_project :: "pyval option"
  wc_date_gte :: "pyval option"
  wc_date_lte :: "pyval option"

text \<open>
  What the store calls outside this repository: the embedding model, the datetime
  functions, pydantic's coercion of a value that is not of the field's type
  (\<open>None\<close> when validation fails), and the nearest-neighbour query of the collection.
\<close>

record 'f vs_lib =
  vs_dt :: dt_lib
  encode :: "string \<Rightarrow> error + real list"
  coerce_str :: "pyval \<Rightarrow> string option"
  coerce_int :: "pyval \<Rightarrow> int option"
  coerce_float :: "pyval \<Rightarrow> real option"
  collection_query ::
    "collection \<Rightarrow> real list \<Rightarrow> int \<Rightarrow> where_clause option \<Rightarrow> error + 'f query_result"

subsection \<open>Building a \<open>MemoryEntry\<close> from stored metadata\<close>

definition nth_err :: "'a list \<Rightarrow> nat \<Rightarrow> error + 'a" where
  "nth_err xs i =
     (if i < length xs then Inr (xs ! i) else Inl (Err IndexError ''list index out of range''))"

definition subscript :: "metadata \<Rightarrow> string \<Rightarrow> error + pyval" where
  "subscript md k = (case md k of None \<Rightarrow> Inl (Err KeyError k) | Some v \<Rightarrow> Inr v)"

definition validation_error :: "string \<Rightarrow> error" where
  "validation_error field = Err ValidationError (''validation error for MemoryEntry: '' @ field)"

definition validate_opt_str :: "('f, 'x) vs_lib_scheme \<Rightarrow> string \<Rightarrow> pyval option \<Rightarrow> error + string option" where
  "validate_opt_str L field v =
     (case v of
        None \<Rightarrow> Inr None
      | Some (VStr s) \<Rightarrow> Inr (Some s)
      | Some x \<Rightarrow> (case coerce_str L x of None \<Rightarrow> Inl (validation_error field)
                                | Some s \<Rightarrow> Inr (Some s)))"

definition validate_str :: "('f, 'x) vs_lib_scheme \<Rightarrow> string \<Rightarrow> pyval \<Rightarrow> error + string" where
  "validate_str L field v =
     (case v of
        VStr s \<Rightarrow> Inr s
      | x \<Rightarrow> (case coerce_str L x of None \<Rightarrow> Inl (validation_error field) | Some s \<Rightarrow> Inr s))"

definition validate_int :: "('f, 'x) vs_lib_scheme \<Rightarrow> string \<Rightarrow> pyval \<Rightarrow> error + int" where
  "validate_int L field v =
     (case v of
        VInt i \<Rightarrow> Inr i
      | x \<Rightarrow> (case coerce_int L x of None \<Rightarrow> Inl (validation_error field) | Some i \<Rightarrow> Inr i))"

definition validate_float :: "('f, 'x) vs_lib_scheme \<Rightarrow> string \<Rightarrow> pyval \<Rightarrow> error + real" where
  "validate_float L field v =
     (case v of
        VFloat x \<Rightarrow> Inr x
      | x \<Rightarrow> (case coerce_float L x of None \<Rightarrow> Inl (validation_error field) | Some y \<Rightarrow> Inr y))"

text \<open>\<open>metadata.get(key) or None\<close>: a missing key and a falsy value both give \<open>None\<close>.\<close>

definition get_or_none :: "metadata \<Rightarrow> string \<Rightarrow> pyval option" where
  "get_or_none md k = (case md k of None \<Rightarrow> None | Some v \<Rightarrow> if truthy v then Some v else None)"

text \<open>\<open>datetime.fromisoformat(metadata["date"])\<close>.\<close>

definition parse_date :: "('f, 'x) vs_lib_scheme \<Rightarrow> metadata \<Rightarrow> error + datetime" where
  "parse_date L md =
     (case subscript md ''date'' of
        Inl e \<Rightarrow> Inl e
      | Inr (VStr s) \<Rightarrow>
          (case fromisoformat (vs_dt L) s of
             None \<Rightarrow> Inl (Err ValueError (''Invalid isoformat string: '' @ s))
           | Some d \<Rightarrow> Inr d)
      | Inr _ \<Rightarrow> Inl (Err TypeError ''fromisoformat: argument must be str''))"

text \<open>
  The constructor call \<open>MemoryEntry(id=..., content=..., customer=..., ...)\<close> that
  \<open>search\<close>, \<open>get_memory_entry\<close> and \<open>list_memory_entries\<close> share: the arguments are
  evaluated in order (the subscripts raise \<open>KeyError\<close>), then pydantic validates.
\<close>

definition build_memory_entry ::
  "('f, 'x) vs_lib_scheme \<Rightarrow> string \<Rightarrow> string \<Rightarrow> metadata \<Rightarrow> error + memory_entry" where
  "build_memory_entry L memory_id content md =
     (case parse_date L md of Inl e \<Rightarrow> Inl e | Inr date \<Rightarrow>
      case subscript md ''source_document_id'' of Inl e \<Rightarrow> Inl e | Inr sdi \<Rightarrow>
      case subscript md ''chunk_index'' of Inl e \<Rightarrow> Inl e | Inr ci \<Rightarrow>
      case validate_opt_str L ''customer'' (get_or_none md ''customer'') of Inl e \<Rightarrow> Inl e | Inr customer \<Rightarrow>
      case validate_opt_str L ''project'' (get_or_none md ''project'') of Inl e \<Rightarrow> Inl e | Inr project \<Rightarrow>
      case validate_str L ''source_document_id'' sdi of Inl e \<Rightarrow> Inl e | Inr source_document_id \<Rightarrow>
      case validate_int L ''chunk_index'' ci of Inl e \<Rightarrow> Inl e | Inr chunk_index \<Rightarrow>
      case validate_float L ''importance_score''
             (case md ''importance_score'' of None \<Rightarrow> VFloat 1 | Some v \<Rightarrow> v)
        of Inl e \<Rightarrow> Inl e | Inr importance_score \<Rightarrow>
      Inr \<lparr>me_id = memory_id, me_content = content, me_customer = customer,
           me_project = project, me_date = date,
           me_source_document_id = source_document_id, me_chunk_index = chunk_index,
           me_importance_score = importance_score, me_metadata = md\<rparr>)"

subsection \<open>\<open>add_memory_entry\<close>, \<open>get_memory_entry\<close>, \<open>delete_memory_entry\<close>\<close>

definition or_empty :: "string option \<Rightarrow> string" where
  "or_empty s = (case s of None \<Rightarrow> [] | Some x \<Rightarrow> x)"

definition entry_metadata :: "('f, 'x) vs_lib_scheme \<Rightarrow> memory_entry \<Rightarrow> metadata" where
  "entry_metadata L memory_entry =
     [''source_document_id'' \<mapsto> VStr (me_source_document_id memory_entry),
      ''chunk_index'' \<mapsto> VInt (me_chunk_index memory_entry),
      ''customer'' \<mapsto> VStr (or_empty (me_customer memory_entry)),
      ''project'' \<mapsto> VStr (or_empty (me_project memory_entry)),
      ''date'' \<mapsto> VStr (isoformat (vs_dt L) (me_date memory_entry)),
      ''importance_score'' \<mapsto> VFloat (me_importance_score memory_entry),
      ''is_manual_entry'' \<mapsto> VBool True]
     ++ me_metadata memory_entry"

definition add_memory_entry ::
  "('f, 'x) vs_lib_scheme \<Rightarrow> world \<Rightarrow> collection \<Rightarrow> memory_entry
     \<Rightarrow> (error + string) \<times> world \<times> collection" where
  "add_memory_entry L w col memory_entry =
     (let (memory_id, w') = uuid4 w
      in case encode L (me_content memory_entry) of
           Inl e \<Rightarrow> (Inl e, w', col)
         | Inr embedding \<Rightarrow>
             (case collection_add col memory_id embedding (entry_metadata L memory_entry)
                     (me_content memory_entry) of
                Inl e \<Rightarrow> (Inl e, w', col)
              | Inr col' \<Rightarrow> (Inr memory_id, w', col')))"

definition get_memory_entry ::
  "('f, 'x) vs_lib_scheme \<Rightarrow> collection \<Rightarrow> string \<Rightarrow> error + memory_entry option" where
  "get_memory_entry L col memory_id =
     (let result = collection_get col memory_id
      in if gr_ids result = [] then Inr None
         else case nth_err (gr_metadatas result) 0 of Inl e \<Rightarrow> Inl e | Inr md \<Rightarrow>
              case nth_err (gr_documents result) 0 of Inl e \<Rightarrow> Inl e | Inr content \<Rightarrow>
              case build_memory_entry L memory_id content md of
                Inl e \<Rightarrow> Inl e
              | Inr entry \<Rightarrow> Inr (Some entry))"

definition delete_memory_entry :: "collection \<Rightarrow> string \<Rightarrow> (error + bool) \<times> collection" where
  "delete_memory_entry col memory_id = (Inr True, collection_delete col memory_id)"

subsection \<open>\<open>search\<close>\<close>

type_synonym filters = "string \<rightharpoonup> pyval"

definition filter_value :: "filters \<Rightarrow> string \<Rightarrow> pyval option" where
  "filter_value f k = (case f k of None \<Rightarrow> None | Some v \<Rightarrow> if truthy v then Some v else None)"

text \<open>
  \<open>if filters:\<close> skips \<open>None\<close> and the empty dictionary; for the empty dictionary the
  four tests below find no key, so both give the empty clause.
\<close>

definition build_where :: "filters option \<Rightarrow> where_clause" where
  "build_where filters =
     (case filters of
        None \<Rightarrow> \<lparr>wc_customer = None, wc_project = None, wc_date_gte = None, wc_date_lte = None\<rparr>
      | Some f \<Rightarrow>
          \<lparr>wc_customer = filter_value f ''customer'',
           wc_project = filter_value f ''project'',
           wc_date_gte = filter_value f ''date_from'',
           wc_date_lte = filter_value f ''date_to''\<rparr>)"

definition where_arg :: "where_clause \<Rightarrow> where_clause option" where
  "where_arg wc =
     (if wc_customer wc = None \<and> wc_project wc = None \<and> wc_date_gte wc = None \<and> wc_date_lte wc = None
      then None else Some wc)"

text \<open>\<open>results["distances"][0][i] if results["distances"] else 0.0\<close>, then \<open>1.0 - distance\<close>.\<close>

definition distance_at :: "'f::zero query_result \<Rightarrow> nat \<Rightarrow> error + 'f" where
  "distance_at results i =
     (case qr_distances results of
        None \<Rightarrow> Inr 0
      | Some [] \<Rightarrow> Inr 0
      | Some (ds # _) \<Rightarrow> nth_err ds i)"

definition similarity_at :: "'f::{zero,one,minus} query_result \<Rightarrow> nat \<Rightarrow> error + 'f" where
  "similarity_at results i =
     (case distance_at results i of Inl e \<Rightarrow> Inl e | Inr distance \<Rightarrow> Inr (1 - distance))"

text \<open>One turn of the loop over \<open>enumerate(results["ids"][0])\<close>: \<open>None\<close> is \<open>continue\<close>.\<close>

definition search_row ::
  "('f::{zero,one,minus,ord}, 'x) vs_lib_scheme \<Rightarrow> 'f \<Rightarrow> 'f query_result \<Rightarrow> nat \<Rightarrow> string
     \<Rightarrow> error + memory_entry option" where
  "search_row L similarity_threshold results i memory_id =
     (case nth_err (qr_metadatas results) 0 of Inl e \<Rightarrow> Inl e | Inr mds \<Rightarrow>
      case nth_err mds i of Inl e \<Rightarrow> Inl e | Inr md \<Rightarrow>
      case nth_err (qr_documents results) 0 of Inl e \<Rightarrow> Inl e | Inr docs \<Rightarrow>
      case nth_err docs i of Inl e \<Rightarrow> Inl e | Inr content \<Rightarrow>
      case similarity_at results i of Inl e \<Rightarrow> Inl e | Inr similarity_score \<Rightarrow>
      if similarity_score < similarity_threshold then Inr None
      else case build_memory_entry L memory_id content md of
             Inl e \<Rightarrow> Inl e
           | Inr entry \<Rightarrow> Inr (Some entry))"

fun search_rows ::
  "('f::{zero,one,minus,ord}, 'x) vs_lib_scheme \<Rightarrow> 'f \<Rightarrow> 'f query_result \<Rightarrow> nat \<Rightarrow> string list
     \<Rightarrow> error + memory_entry list" where
  "search_rows L thr results i [] = Inr []"
| "search_rows L thr results i (memory_id # ids) =
     (case search_row L thr results i memory_id of
        Inl e \<Rightarrow> Inl e
      | Inr None \<Rightarrow> search_rows L thr results (Suc i) ids
      | Inr (Some entry) \<Rightarrow>
          (case search_rows L thr results (Suc i) ids of
             Inl e \<Rightarrow> Inl e
           | Inr entries \<Rightarrow> Inr (entry # entries)))"

text \<open>\<open>settings.similarity_threshold\<close> is the second argument.\<close>

definition search ::
  "('f::{zero,one,minus,ord}, 'x) vs_lib_scheme \<Rightarrow> 'f \<Rightarrow> collection \<Rightarrow> string \<Rightarrow> filters option \<Rightarrow> int
     \<Rightarrow> error + memory_entry list" where
  "search L similarity_threshold col query filters top_k =
     (case encode L query of Inl e \<Rightarrow> Inl e | Inr query_embedding \<Rightarrow>
      case collection_query L col query_embedding top_k (where_arg (build_where filters)) of
        Inl e \<Rightarrow> Inl e
      | Inr results \<Rightarrow>
          (case qr_ids results of
             [] \<Rightarrow> Inr []
           | [] # _ \<Rightarrow> Inr []
           | ids # _ \<Rightarrow> search_rows L similarity_threshold results 0 ids))"

text \<open>
  The response of the collection that \<open>search\<close> works on, and the identifiers of its
  first (only) query: \<open>results["ids"][0]\<close> where the loop runs, else none.
\<close>

definition query_results ::
  "('f, 'x) vs_lib_scheme \<Rightarrow> collection \<Rightarrow> string \<Rightarrow> filters option \<Rightarrow> int \<Rightarrow> error + 'f query_result" where
  "query_results L col query filters top_k =
     (case encode L query of
        Inl e \<Rightarrow> Inl e
      | Inr query_embedding \<Rightarrow>
          collection_query L col query_embedding top_k (where_arg (build_where filters)))"

definition first_ids :: "'f query_result \<Rightarrow> string list" where
  "first_ids results = (case qr_ids results of [] \<Rightarrow> [] | ids # _ \<Rightarrow> ids)"

text \<open>
  The keys \<open>add_memory_entry\<close> writes itself and the constructor reads back.
\<close>

definition reserved_keys :: "string set" where
  "reserved_keys = {''customer'', ''project'', ''date'', ''source_document_id'', ''chunk_index'', ''importance_score''}"

section \<open>Document ingestion (\<open>document_processor.py\<close>)\<close>

type_synonym bytes = "8 word list"

datatype document_type = PDF | TXT | DOCX | MD

record document =
  doc_id :: string
  doc_filename :: string
  doc_content :: string
  doc_document_type :: document_type
  doc_customer :: "string option"
  doc_project :: "string option"
  doc_date :: datetime
  doc_metadata :: metadata
  doc_file_size :: nat
  doc_created_at :: datetime

text \<open>
  The libraries behind the processors are parameters: PyPDF2 and python-docx give
  the texts of the pages and paragraphs or raise; a codec gives the decoded text or
  raises \<open>UnicodeDecodeError\<close> (\<open>Inl\<close>, with the text of the error), the only exception
  \<open>bytes.decode\<close> raises on bytes; decoding with \<open>errors='replace'\<close> never raises.
  Latin-1 is not a parameter: it maps every byte to the character of the same code.
\<close>

record doc_lib =
  pdf_pages :: "bytes \<Rightarrow> error + string list"
  docx_paragraphs :: "bytes \<Rightarrow> error + string list"
  decode_utf8 :: "bytes \<Rightarrow> string + string"
  decode_utf16 :: "bytes \<Rightarrow> string + string"
  decode_cp1252 :: "bytes \<Rightarrow> string + string"
  decode_utf8_replace :: "bytes \<Rightarrow> string"

datatype encoding = UTF8 | UTF16 | Latin1 | CP1252

definition decode_latin1 :: "bytes \<Rightarrow> string" where
  "decode_latin1 bs = map (\<lambda>b. char_of (unat b)) bs"

fun decode :: "('x) doc_lib_scheme \<Rightarrow> encoding \<Rightarrow> bytes \<Rightarrow> string + string" where
  "decode L UTF8 bs = decode_utf8 L bs"
| "decode L UTF16 bs = decode_utf16 L bs"
| "decode L Latin1 bs = Inr (decode_latin1 bs)"
| "decode L CP1252 bs = decode_cp1252 L bs"

datatype processor = PDFProcessor | DocxProcessor | TxtProcessor | MarkdownProcessor

fun can_process :: "processor \<Rightarrow> string \<Rightarrow> bool" where
  "can_process PDFProcessor filename = endswith (lower filename) ''.pdf''"
| "can_process DocxProcessor filename = endswith (lower filename) ''.docx''"
| "can_process TxtProcessor filename = endswith (lower filename) ''.txt''"
| "can_process MarkdownProcessor filename =
     (endswith (lower filename) ''.md'' \<or> endswith (lower filename) ''.markdown'')"

text \<open>
  The loop of \<open>TxtProcessor.extract_text\<close> over the encodings: the first decoding that
  does not raise \<open>UnicodeDecodeError\<close> is returned, stripped.
\<close>

fun try_encodings :: "('x) doc_lib_scheme \<Rightarrow> encoding list \<Rightarrow> bytes \<Rightarrow> string option" where
  "try_encodings L [] bs = None"
| "try_encodings L (encoding # encodings) bs =
     (case decode L encoding bs of
        Inr s \<Rightarrow> Some (strip s)
      | Inl _ \<Rightarrow> try_encodings L encodings bs)"

definition join_lines :: "string list \<Rightarrow> string" where
  "join_lines parts = concat (map (\<lambda>p. p @ [CHR 0x0A]) parts)"

fun extract_text :: "('x) doc_lib_scheme \<Rightarrow> processor \<Rightarrow> bytes \<Rightarrow> error + string" where
  "extract_text L PDFProcessor file_content =
     (case pdf_pages L file_content of
        Inl e \<Rightarrow> Inl (Err ValueError (''Failed to process PDF: '' @ str_of_error e))
      | Inr pages \<Rightarrow> Inr (strip (join_lines pages)))"
| "extract_text L DocxProcessor file_content =
     (case docx_paragraphs L file_content of
        Inl e \<Rightarrow> Inl (Err ValueError (''Failed to process DOCX: '' @ str_of_error e))
      | Inr paragraphs \<Rightarrow> Inr (strip (join_lines paragraphs)))"
| "extract_text L TxtProcessor file_content =
     (case try_encodings L [UTF8, UTF16, Latin1, CP1252] file_content of
        Some s \<Rightarrow> Inr s
      | None \<Rightarrow> Inr (strip (decode_utf8_replace L file_content)))"
| "extract_text L MarkdownProcessor file_content =
     (case decode_utf8 L file_content of
        Inl msg \<Rightarrow> Inl (Err ValueError (''Failed to process Markdown: '' @ msg))
      | Inr s \<Rightarrow> Inr (strip s))"

definition processors :: "processor list" where
  "processors = [PDFProcessor, DocxProcessor, TxtProcessor, MarkdownProcessor]"

text \<open>The \<open>for\<close> loop with \<open>break\<close>: the first processor that accepts the file name.\<close>

fun find_processor :: "processor list \<Rightarrow> string \<Rightarrow> processor option" where
  "find_processor [] filename = None"
| "find_processor (proc # procs) filename =
     (if can_process proc filename then Some proc else find_processor procs filename)"

definition get_document_type :: "string \<Rightarrow> document_type" where
  "get_document_type filename =
     (let filename_lower = lower filename
      in if endswith filename_lower ''.pdf'' then PDF
         else if endswith filename_lower ''.docx'' then DOCX
         else if endswith filename_lower ''.txt'' then TXT
         else if endswith filename_lower ''.md'' \<or> endswith filename_lower ''.markdown'' then MD
         else TXT)"

definition process_document ::
  "('x) doc_lib_scheme \<Rightarrow> world \<Rightarrow> string \<Rightarrow> bytes \<Rightarrow> string option \<Rightarrow> string option
     \<Rightarrow> metadata option \<Rightarrow> (error + document) \<times> world" where
  "process_document L w filename file_content customer project md =
     (case find_processor processors filename of
        None \<Rightarrow> (Inl (Err ValueError (''No processor available for file type: '' @ filename)), w)
      | Some processor \<Rightarrow>
          (case extract_text L processor file_content of
             Inl e \<Rightarrow> (Inl e, w)
           | Inr content \<Rightarrow>
               if strip content = []
               then (Inl (Err ValueError ''Document appears to be empty or unreadable''), w)
               else
                 (let doc_type = get_document_type filename;
                      (i, w1) = uuid4 w;
                      (date, w2) = utcnow w1;
                      (created_at, w3) = utcnow w2
                  in (Inr \<lparr>doc_id = i, doc_filename = filename, doc_content = content,
                          doc_document_type = doc_type, doc_customer = customer,
                          doc_project = project, doc_date = date,
                          doc_metadata = (case md of None \<Rightarrow> Map.empty | Some m \<Rightarrow> m),
                          doc_file_size = length file_content,
                          doc_created_at = created_at\<rparr>, w3))))"

section \<open>The RAG engine (\<open>RAGEngine\<close>)\<close>

subsection \<open>Data\<close>

record message =
  msg_role :: string
  msg_content :: string
  msg_timestamp :: string

record conversation =
  conv_id :: string
  conv_title :: "string option"
  conv_messages :: "message list"
  conv_customer :: "string option"
  conv_project :: "string option"
  conv_created_at :: datetime
  conv_updated_at :: datetime

record query =
  q_question :: string
  q_conversation_id :: "string option"
  q_filters :: "filters option"
  q_max_results :: int

record agent_response =
  ar_answer :: string
  ar_sources :: "memory_entry list"
  ar_conversation_id :: string
  ar_query_time_ms :: int
  ar_tokens_used :: "int option"
  ar_created_at :: datetime

text \<open>The keys of the dictionary \<open>OllamaClient.generate\<close> returns that the engine reads.\<close>

record llm_response =
  lr_response :: string
  lr_generation_time_ms :: real
  lr_tokens_used :: int

text \<open>
  The engine's table of conversations.  A \<open>Conversation\<close> object is shared between
  the table and the caller that holds it; the key under which it is stored stands
  for the object, and a change of the object is a change of the table at that key.
\<close>

record rag_engine =
  conversations :: "string \<rightharpoonup> conversation"

text \<open>
  The collaborators the engine is constructed with: the vector store's \<open>search\<close>, the
  LLM client's \<open>generate\<close> and \<open>generate_stream\<close> (the fragments the stream yields,
  and the exception that ends it, if one does), and the fixed system prompt.
\<close>

record rag_deps =
  rd_dt :: dt_lib
  vs_search :: "string \<Rightarrow> filters option \<Rightarrow> int \<Rightarrow> error + memory_entry list"
  llm_generate :: "string \<Rightarrow> string \<Rightarrow> string \<Rightarrow> real \<Rightarrow> int \<Rightarrow> error + llm_response"
  llm_generate_stream ::
    "string \<Rightarrow> string \<Rightarrow> string \<Rightarrow> real \<Rightarrow> int \<Rightarrow> string list \<times> error option"
  system_prompt :: string




subsection \<open>Conversations\<close>

definition create_conversation ::
  "('x) rag_deps_scheme \<Rightarrow> world \<Rightarrow> rag_engine \<Rightarrow> string option \<Rightarrow> string option \<Rightarrow> string option
     \<Rightarrow> conversation \<times> world \<times> rag_engine" where
  "create_conversation D w eng title customer project =
     (let (i, w1) = uuid4 w;
          (title', w2) =
            (case title of
               Some t \<Rightarrow> if t \<noteq> [] then (t, w1)
                         else (let (now, w') = utcnow w1
                               in (''Conversation '' @ strftime_minute (rd_dt D) now, w'))
             | None \<Rightarrow> (let (now, w') = utcnow w1
                        in (''Conversation '' @ strftime_minute (rd_dt D) now, w')));
          (created_at, w3) = utcnow w2;
          (updated_at, w4) = utcnow w3;
          conversation =
            \<lparr>conv_id = i, conv_title = Some title', conv_messages = [],
             conv_customer = customer, conv_project = project,
             conv_created_at = created_at, conv_updated_at = updated_at\<rparr>
      in (conversation, w4, eng\<lparr>conversations := (conversations eng)(i \<mapsto> conversation)\<rparr>))"

definition get_conversation :: "rag_engine \<Rightarrow> string \<Rightarrow> conversation option" where
  "get_conversation eng conversation_id = conversations eng conversation_id"

definition delete_conversation :: "rag_engine \<Rightarrow> string \<Rightarrow> bool \<times> rag_engine" where
  "delete_conversation eng conversation_id =
     (if conversations eng conversation_id \<noteq> None
      then (True, eng\<lparr>conversations := (conversations eng)(conversation_id := None)\<rparr>)
      else (False, eng))"

text \<open>
  \<open>_get_or_create_conversation\<close> returns the key of the conversation in the table
  together with the conversation.
\<close>

definition get_or_create_conversation ::
  "('x) rag_deps_scheme \<Rightarrow> world \<Rightarrow> rag_engine \<Rightarrow> string option
     \<Rightarrow> string \<times> conversation \<times> world \<times> rag_engine" where
  "get_or_create_conversation D w eng conversation_id =
     (case (case conversation_id of
              None \<Rightarrow> None
            | Some cid \<Rightarrow> if cid \<noteq> [] then map_option (Pair cid) (conversations eng cid) else None) of
        Some (cid, conversation) \<Rightarrow> (cid, conversation, w, eng)
      | None \<Rightarrow>
          (let (conversation, w', eng') = create_conversation D w eng None None None
           in (conv_id conversation, conversation, w', eng')))"

definition update_conversation ::
  "('x) rag_deps_scheme \<Rightarrow> world \<Rightarrow> rag_engine \<Rightarrow> string \<Rightarrow> string \<Rightarrow> string
     \<Rightarrow> world \<times> rag_engine" where
  "update_conversation D w eng key question answer =
     (let (t1, w1) = utcnow w;
          (t2, w2) = utcnow w1;
          (t3, w3) = utcnow w2
      in case conversations eng key of
           None \<Rightarrow> (w3, eng)
         | Some conversation \<Rightarrow>
             (w3, eng\<lparr>conversations := (conversations eng)(key \<mapsto>
                conversation\<lparr>conv_messages := conv_messages conversation @
                    [\<lparr>msg_role = ''user'', msg_content = question,
                      msg_timestamp = isoformat (rd_dt D) t1\<rparr>,
                     \<lparr>msg_role = ''assistant'', msg_content = answer,
                      msg_timestamp = isoformat (rd_dt D) t2\<rparr>],
                  conv_updated_at := t3\<rparr>)\<rparr>))"

subsection \<open>The context block\<close>

definition source_block :: "nat \<Rightarrow> memory_entry \<Rightarrow> string" where
  "source_block i entry =
     (''Source '' @ str_nat i)
     @ (case me_customer entry of
          Some c \<Rightarrow> if c \<noteq> [] then '' (Customer: '' @ c @ '')'' else []
        | None \<Rightarrow> [])
     @ (case me_project entry of
          Some p \<Rightarrow> if p \<noteq> [] then '' (Project: '' @ p @ '')'' else []
        | None \<Rightarrow> [])
     @ (if me_source_document_id entry \<noteq> []
        then '' (Document: '' @ py_slice (me_source_document_id entry) 0 8 @ ''...)''
        else [])
     @ '':'' @ [CHR 0x0A] @ me_content entry"

fun join :: "string \<Rightarrow> string list \<Rightarrow> string" where
  "join sep [] = []"
| "join sep [x] = x"
| "join sep (x # y # ys) = x @ sep @ join sep (y # ys)"

definition build_context :: "memory_entry list \<Rightarrow> string" where
  "build_context memory_entries =
     (if memory_entries = [] then ''No relevant information found in the knowledge base.''
      else join [CHR 0x0A, CHR 0x0A]
             (map (\<lambda>(i, entry). source_block i entry)
                (zip [1..<Suc (length memory_entries)] memory_entries)))"

subsection \<open>\<open>query\<close> and \<open>query_stream\<close>\<close>

text \<open>pydantic's conversion of the float \<open>generation_time_ms\<close> to the integer field.\<close>

definition int_of_float :: "real \<Rightarrow> int" where
  "int_of_float x = (if 0 \<le> x then \<lfloor>x\<rfloor> else \<lceil>x\<rceil>)"

definition query ::
  "('x) rag_deps_scheme \<Rightarrow> world \<Rightarrow> rag_engine \<Rightarrow> query
     \<Rightarrow> (error + agent_response) \<times> world \<times> rag_engine" where
  "query D w eng q =
     (let (start_time, w0) = utcnow w;
          (key, conversation, w1, eng1) = get_or_create_conversation D w0 eng (q_conversation_id q)
      in case vs_search D (q_question q) (q_filters q) (q_max_results q) of
           Inl e \<Rightarrow> (Inl e, w1, eng1)
         | Inr memory_entries \<Rightarrow>
             (let context = build_context memory_entries
              in case llm_generate D (q_question q) context (system_prompt D) (7 / 10) 2048 of
                   Inl e \<Rightarrow> (Inl e, w1, eng1)
                 | Inr llm_response \<Rightarrow>
                     (let (created_at, w2) = utcnow w1;
                          response =
                            \<lparr>ar_answer = lr_response llm_response,
                             ar_sources = memory_entries,
                             ar_conversation_id = conv_id conversation,
                             ar_query_time_ms = int_of_float (lr_generation_time_ms llm_response),
                             ar_tokens_used = Some (lr_tokens_used llm_response),
                             ar_created_at = created_at\<rparr>;
                          (w3, eng2) = update_conversation D w2 eng1 key (q_question q)
                                         (ar_answer response)
                      in (Inr response, w3, eng2))))"



text \<open>
  The timestamps of the table are readings of the clock taken in the past, and a
  conversation was not updated before it was created.
\<close>

definition engine_inv :: "world \<Rightarrow> rag_engine \<Rightarrow> bool" where
  "engine_inv w eng \<longleftrightarrow>
     (\<forall>k c. conversations eng k = Some c \<longrightarrow>
        conv_created_at c \<le> conv_updated_at c \<and> conv_updated_at c \<le> clock w (reads w))"

section \<open>Concrete environments for the examples\<close>

text \<open>
  Stand-ins for the library functions, used where a statement is evaluated on a
  concrete input: a datetime is printed as the decimal number of its seconds,
  the embedding of a text is its length, pydantic coerces nothing, and the
  collection answers every query with the rows \<open>m1\<close> (distance 0.1) and \<open>m2\<close>
  (distance 0.5).
\<close>

fun nat_of_digits :: "nat \<Rightarrow> string \<Rightarrow> nat option" where
  "nat_of_digits acc [] = Some acc"
| "nat_of_digits acc (c # cs) =
     (let k = (of_char c :: nat)
      in if 48 \<le> k \<and> k \<le> 57 then nat_of_digits (10 * acc + (k - 48)) cs else None)"

definition example_dt :: dt_lib where
  "example_dt =
     \<lparr>isoformat = str_nat,
      fromisoformat = (\<lambda>s. if s = [] then None else nat_of_digits 0 s),
      strftime_minute = (\<lambda>t. str_nat (t div 60))\<rparr>"

definition example_metadata :: "string \<Rightarrow> metadata" where
  "example_metadata customer =
     [''source_document_id'' \<mapsto> VStr ''doc-1'', ''chunk_index'' \<mapsto> VInt 0,
      ''customer'' \<mapsto> VStr customer, ''project'' \<mapsto> VStr [],
      ''date'' \<mapsto> VStr ''1700'', ''importance_score'' \<mapsto> VFloat 1]"

definition example_collection :: collection where
  "example_collection =
     [''m1'' \<mapsto> \<lparr>row_embedding = [4], row_metadata = example_metadata ''acme'', row_document = ''near''\<rparr>,
      ''m2'' \<mapsto> \<lparr>row_embedding = [3], row_metadata = example_metadata ''acme'', row_document = ''far''\<rparr>]"

definition example_lib :: "real vs_lib" where
  "example_lib =
     \<lparr>vs_dt = example_dt,
      encode = (\<lambda>s. Inr [real (length s)]),
      coerce_str = (\<lambda>_. None),
      coerce_int = (\<lambda>_. None),
      coerce_float = (\<lambda>_. None),
      collection_query = (\<lambda>col embedding n_results wc.
        Inr \<lparr>qr_ids = [[''m1'', ''m2'']],
             qr_metadatas = [[example_metadata ''acme'', example_metadata ''acme'']],
             qr_documents = [[''near'', ''far'']],
             qr_distances = Some [[1 / 10, 1 / 2]]\<rparr>)\<rparr>"

definition example_world :: world where
  "example_world =
     \<lparr>clock = (\<lambda>k. 1800 + k), reads = 0,
      uuids = (\<lambda>k. ''uuid-'' @ str_nat k), drawn = 0\<rparr>"

definition example_entry :: "string option \<Rightarrow> metadata \<Rightarrow> memory_entry" where
  "example_entry customer md =
     \<lparr>me_id = ''n1'', me_content = ''a note'', me_customer = customer,
      me_project = Some ''alpha'', me_date = 1700,
      me_source_document_id = ''n1'', me_chunk_index = 0, me_importance_score = 1,
      me_metadata = md\<rparr>"

text \<open>
  Libraries for the ingestion examples: strict codecs that reject every input, and
  readers that find one blank page or paragraph.
\<close>

definition example_doc_lib :: doc_lib where
  "example_doc_lib =
     \<lparr>pdf_pages = (\<lambda>bs. Inr ['' '']),
      docx_paragraphs = (\<lambda>bs. Inr ['' '']),
      decode_utf8 = (\<lambda>bs. Inl ''invalid start byte''),
      decode_utf16 = (\<lambda>bs. Inl ''truncated data''),
      decode_cp1252 = (\<lambda>bs. Inl ''character maps to <undefined>''),
      decode_utf8_replace = (\<lambda>bs. ''?'')\<rparr>"

text \<open>
  Collaborators for the engine examples: the search finds nothing, \<open>generate\<close>
  answers \<open>42\<close>, and the stream yields \<open>Hel\<close> and then raises.
\<close>

definition example_deps :: rag_deps where
  "example_deps =
     \<lparr>rd_dt = example_dt,
      vs_search = (\<lambda>query filters top_k. Inr []),
      llm_generate = (\<lambda>prompt context system_prompt temperature max_tokens.
        Inr \<lparr>lr_response = ''42'', lr_generation_time_ms = 12, lr_tokens_used = 7\<rparr>),
      llm_generate_stream = (\<lambda>prompt context system_prompt temperature max_tokens.
        ([''Hel''], Some (Err ConnectionError ''Failed to connect to Ollama: reset''))),
      system_prompt = ''You are an AI Scientific Advisor assistant.''\<rparr>"

definition example_query :: query where
  "example_query =
     \<lparr>q_question = ''What is the answer?'', q_conversation_id = None,
      q_filters = None, q_max_results = 5\<rparr>"

definition example_engine :: rag_engine where
  "example_engine = \<lparr>conversations = Map.empty\<rparr>"



section \<open>Properties of the chunker\<close>

















text \<open>
  Claim C3, as amended.  A text no longer than \<open>chunk_size\<close> is returned as exactly one
  chunk, the text itself, unchanged: it is not trimmed.
\<close>

theorem chunk_text_short:
  "int (length txt) \<le> chunk_size \<Longrightarrow> chunk_text chunk_size chunk_overlap txt = Some [txt]"
  by (simp add: chunk_text_def)

theorem chunk_text_short_witness:
  "chunk_text 1000 200 '' a note '' = Some ['' a note '']"
  using chunk_text_short [of "'' a note ''" 1000 200] by simp

text \<open>
  The short text \<open>" a note "\<close> comes back with its surrounding blanks.
\<close>

theorem chunk_text_short_counterexample:
  "int (length '' a note '') \<le> 1000 \<and> chunk_text 1000 200 '' a note '' \<noteq> Some [strip '' a note '']"
  by (simp add: chunk_text_def strip_def is_space_def)

section \<open>Properties of the vector store\<close>

lemma build_memory_entry_id:
  "build_memory_entry L memory_id content md = Inr e \<Longrightarrow> me_id e = memory_id \<and> me_content e = content"
  unfolding build_memory_entry_def
  by (simp split: sum.split_asm) auto

lemma search_row_kept:
  assumes "search_row L thr results i memory_id = Inr (Some e)"
  shows "me_id e = memory_id \<and> (\<exists>s. similarity_at results i = Inr s \<and> \<not> s < thr)"
  using assms unfolding search_row_def
  by (simp split: sum.split_asm if_split_asm add: build_memory_entry_id)

lemma search_rows_kept:
  "search_rows L thr results i ids = Inr es \<Longrightarrow>
     length es \<le> length ids \<and>
     (\<forall>e\<in>set es. \<exists>j<length ids. me_id e = ids ! j \<and>
        (\<exists>s. similarity_at results (i + j) = Inr s \<and> \<not> s < thr))"
proof (induction ids arbitrary: i es)
  case Nil
  then show ?case by simp
next
  case (Cons memory_id ids)
  have shift: "\<exists>j<length (memory_id # ids). me_id e = (memory_id # ids) ! j \<and>
         (\<exists>s. similarity_at results (i + j) = Inr s \<and> \<not> s < thr)"
    if rest: "search_rows L thr results (Suc i) ids = Inr rest" and e: "e \<in> set rest" for e rest
  proof -
    from Cons.IH [OF rest] e obtain j where
      "j < length ids" "me_id e = ids ! j"
      "\<exists>s. similarity_at results (Suc i + j) = Inr s \<and> \<not> s < thr"
      by blast
    then have "Suc j < length (memory_id # ids) \<and> me_id e = (memory_id # ids) ! Suc j \<and>
          (\<exists>s. similarity_at results (i + Suc j) = Inr s \<and> \<not> s < thr)"
      by simp
    then show ?thesis by blast
  qed
  show ?case
  proof (cases "search_row L thr results i memory_id")
    case (Inl e)
    with Cons.prems show ?thesis by simp
  next
    case (Inr r)
    show ?thesis
    proof (cases r)
      case None
      with Inr Cons.prems have rest: "search_rows L thr results (Suc i) ids = Inr es" by simp
      from Cons.IH [OF rest] have "length es \<le> length (memory_id # ids)" by simp
      with shift [OF rest] show ?thesis by blast
    next
      case (Some entry)
      with Inr Cons.prems obtain rest where
        rest: "search_rows L thr results (Suc i) ids = Inr rest" and es: "es = entry # rest"
        by (auto split: sum.splits)
      from Inr Some have "me_id entry = memory_id \<and> (\<exists>s. similarity_at results i = Inr s \<and> \<not> s < thr)"
        using search_row_kept by blast
      then have h: "\<exists>j<length (memory_id # ids). me_id entry = (memory_id # ids) ! j \<and>
             (\<exists>s. similarity_at results (i + j) = Inr s \<and> \<not> s < thr)"
        by (intro exI [of _ 0]) simp
      from Cons.IH [OF rest] have "length es \<le> length (memory_id # ids)" using es by simp
      moreover have "\<exists>j<length (memory_id # ids). me_id e = (memory_id # ids) ! j \<and>
             (\<exists>s. similarity_at results (i + j) = Inr s \<and> \<not> s < thr)" if "e \<in> set es" for e
        using that es h shift [OF rest] by (cases "e = entry") auto
      ultimately show ?thesis by blast
    qed
  qed
qed


lemma search_results:
  assumes "search L thr col query_text filters top_k = Inr entries"
  shows "\<exists>results. query_results L col query_text filters top_k = Inr results \<and>
           length entries \<le> length (first_ids results) \<and>
           (\<forall>e\<in>set entries. \<exists>j<length (first_ids results). me_id e = first_ids results ! j \<and>
              (\<exists>s. similarity_at results j = Inr s \<and> \<not> s < thr))"
proof -
  from assms obtain emb results where
    emb: "encode L query_text = Inr emb" and
    res: "collection_query L col emb top_k (where_arg (build_where filters)) = Inr results"
    by (auto simp: search_def split: sum.splits)
  have q: "query_results L col query_text filters top_k = Inr results"
    by (simp add: query_results_def emb res)
  show ?thesis
  proof (cases "first_ids results")
    case Nil
    with assms emb res have "entries = []"
      by (auto simp: search_def first_ids_def split: list.splits)
    with q show ?thesis by simp
  next
    case (Cons i ids)
    with assms emb res have "search_rows L thr results 0 (first_ids results) = Inr entries"
      by (auto simp: search_def first_ids_def split: list.splits)
    from search_rows_kept [OF this] q show ?thesis by simp
  qed
qed

lemma example_search_one:
  "map_sum id (map me_id) (search example_lib (7 / 10) example_collection ''q'' None 2) = Inr [''m1'']"
  by (simp add: search_def example_lib_def search_row_def nth_err_def similarity_at_def
      distance_at_def build_memory_entry_def parse_date_def subscript_def example_metadata_def
      example_dt_def validate_opt_str_def validate_str_def validate_int_def validate_float_def
      get_or_none_def build_where_def where_arg_def)

lemma example_search_none:
  "search example_lib (19 / 20) example_collection ''q'' None 2 = Inr []"
  by (simp add: search_def example_lib_def search_row_def nth_err_def similarity_at_def
      distance_at_def build_where_def where_arg_def)

lemma example_collection_nonempty: "example_collection ''m1'' \<noteq> None"
  by (simp add: example_collection_def)

text \<open>
  Claim C1.  Whatever the query, the filters, \<open>top_k\<close>, the threshold and the
  collection's answer: when \<open>search\<close> returns, every returned entry is the row of some
  index \<open>j\<close> of the answer whose computed similarity (1 minus the reported distance)
  is not below the threshold, and no more entries are returned than the answer has
  rows.  The rest is an instance: on a non-empty collection whose answer has rows at
  distances 0.1 and 0.5, a threshold of 0.7 keeps one of the two rows and a threshold
  of 0.95 keeps none.
\<close>

theorem search_threshold:
  "(search L thr col query_text filters top_k = Inr entries \<longrightarrow>
      (\<exists>results. query_results L col query_text filters top_k = Inr results \<and>
         length entries \<le> length (first_ids results) \<and>
         (\<forall>e\<in>set entries. \<exists>j<length (first_ids results). me_id e = first_ids results ! j \<and>
            (\<exists>s. similarity_at results j = Inr s \<and> \<not> s < thr)))) \<and>
   example_collection ''m1'' \<noteq> None \<and>
   map_sum id (map me_id) (search example_lib (7 / 10) example_collection ''q'' None 2) = Inr [''m1''] \<and>
   search example_lib (19 / 20) example_collection ''q'' None 2 = Inr []"
  using search_results [of L thr col query_text filters top_k entries]
    example_search_one example_search_none example_collection_nonempty
  by blast

lemma example_query_results:
  "query_results example_lib example_collection ''q'' None 2 =
     Inr \<lparr>qr_ids = [[''m1'', ''m2'']],
          qr_metadatas = [[example_metadata ''acme'', example_metadata ''acme'']],
          qr_documents = [[''near'', ''far'']],
          qr_distances = Some [[1 / 10, 1 / 2]]\<rparr>"
  by (simp add: query_results_def example_lib_def)

theorem search_threshold_witness:
  "\<exists>entries. search example_lib (7 / 10) example_collection ''q'' None 2 = Inr entries \<and>
     list_all (\<lambda>e. me_id e = ''m1'') entries"
proof -
  let ?R = "\<lparr>qr_ids = [[''m1'', ''m2'']],
          qr_metadatas = [[example_metadata ''acme'', example_metadata ''acme'']],
          qr_documents = [[''near'', ''far'']],
          qr_distances = Some [[1 / 10, 1 / 2 :: real]]\<rparr>"
  obtain entries where e: "search example_lib (7 / 10) example_collection ''q'' None 2 = Inr entries"
    using example_search_one by (cases "search example_lib (7 / 10) example_collection ''q'' None 2") auto
  from search_threshold [of example_lib "7 / 10" example_collection "''q''" None 2 entries] e
  obtain results where r: "query_results example_lib example_collection ''q'' None 2 = Inr results"
    and k: "\<forall>x\<in>set entries. \<exists>j<length (first_ids results). me_id x = first_ids results ! j \<and>
               (\<exists>s. similarity_at results j = Inr s \<and> \<not> s < 7 / 10)"
    by blast
  from r have R: "results = ?R" by (simp add: example_query_results)
  have ids: "first_ids ?R = [''m1'', ''m2'']" by (simp add: first_ids_def)
  from k have all: "\<forall>x\<in>set entries. \<exists>j<length [''m1'', ''m2'']. me_id x = [''m1'', ''m2''] ! j \<and>
               (\<exists>s. similarity_at ?R j = Inr s \<and> \<not> s < 7 / 10)"
    unfolding R ids .
  have far: "similarity_at ?R 1 = Inr (1 / 2)"
    by (simp add: similarity_at_def distance_at_def nth_err_def)
  have "me_id x = ''m1''" if "x \<in> set entries" for x
  proof -
    from all that obtain j s where j: "j < length [''m1'', ''m2'']" "me_id x = [''m1'', ''m2''] ! j"
      "similarity_at ?R j = Inr s" "\<not> s < 7 / 10"
      by blast
    from j(1) consider "j = 0" | "j = 1" by (auto simp: less_Suc_eq)
    then show ?thesis
    proof cases
      case 1
      with j(2) show ?thesis by simp
    next
      case 2
      with j(3,4) far show ?thesis by simp
    qed
  qed
  then have "list_all (\<lambda>e. me_id e = ''m1'') entries"
    by (simp add: list_all_iff)
  with e show ?thesis by blast
qed

lemma entry_metadata_reserved:
  assumes "dom (me_metadata entry) \<inter> reserved_keys = {}"
  shows "entry_metadata L entry ''customer'' = Some (VStr (or_empty (me_customer entry)))"
    and "entry_metadata L entry ''project'' = Some (VStr (or_empty (me_project entry)))"
    and "entry_metadata L entry ''date'' = Some (VStr (isoformat (vs_dt L) (me_date entry)))"
    and "entry_metadata L entry ''source_document_id'' = Some (VStr (me_source_document_id entry))"
    and "entry_metadata L entry ''chunk_index'' = Some (VInt (me_chunk_index entry))"
    and "entry_metadata L entry ''importance_score'' = Some (VFloat (me_importance_score entry))"
proof -
  have n: "me_metadata entry k = None" if "k \<in> reserved_keys" for k
    using assms that by auto
  show "entry_metadata L entry ''customer'' = Some (VStr (or_empty (me_customer entry)))"
    using n [of "''customer''"] by (simp add: entry_metadata_def map_add_def reserved_keys_def)
  show "entry_metadata L entry ''project'' = Some (VStr (or_empty (me_project entry)))"
    using n [of "''project''"] by (simp add: entry_metadata_def map_add_def reserved_keys_def)
  show "entry_metadata L entry ''date'' = Some (VStr (isoformat (vs_dt L) (me_date entry)))"
    using n [of "''date''"] by (simp add: entry_metadata_def map_add_def reserved_keys_def)
  show "entry_metadata L entry ''source_document_id'' = Some (VStr (me_source_document_id entry))"
    using n [of "''source_document_id''"] by (simp add: entry_metadata_def map_add_def reserved_keys_def)
  show "entry_metadata L entry ''chunk_index'' = Some (VInt (me_chunk_index entry))"
    using n [of "''chunk_index''"] by (simp add: entry_metadata_def map_add_def reserved_keys_def)
  show "entry_metadata L entry ''importance_score'' = Some (VFloat (me_importance_score entry))"
    using n [of "''importance_score''"] by (simp add: entry_metadata_def map_add_def reserved_keys_def)
qed

lemma label_round_trip:
  assumes "label \<noteq> Some []" "md k = Some (VStr (or_empty label))"
  shows "validate_opt_str L field (get_or_none md k) = Inr label"
  using assms
  by (cases label) (simp_all add: validate_opt_str_def get_or_none_def or_empty_def)

lemma build_stored_entry:
  assumes keys: "dom (me_metadata entry) \<inter> reserved_keys = {}"
    and labels: "me_customer entry \<noteq> Some []" "me_project entry \<noteq> Some []"
    and iso: "fromisoformat (vs_dt L) (isoformat (vs_dt L) (me_date entry)) = Some (me_date entry)"
  shows "build_memory_entry L memory_id content (entry_metadata L entry) =
           Inr \<lparr>me_id = memory_id, me_content = content, me_customer = me_customer entry,
                me_project = me_project entry, me_date = me_date entry,
                me_source_document_id = me_source_document_id entry,
                me_chunk_index = me_chunk_index entry,
                me_importance_score = me_importance_score entry,
                me_metadata = entry_metadata L entry\<rparr>"
proof -
  note md = entry_metadata_reserved [OF keys, of L]
  have d: "parse_date L (entry_metadata L entry) = Inr (me_date entry)"
    by (simp add: parse_date_def subscript_def md iso)
  have c: "validate_opt_str L ''customer'' (get_or_none (entry_metadata L entry) ''customer'') = Inr (me_customer entry)"
    using labels(1) md(1) by (rule label_round_trip)
  have p: "validate_opt_str L ''project'' (get_or_none (entry_metadata L entry) ''project'') = Inr (me_project entry)"
    using labels(2) md(2) by (rule label_round_trip)
  show ?thesis
    unfolding build_memory_entry_def
    by (simp add: d c p subscript_def md validate_str_def validate_int_def validate_float_def)
qed

text \<open>
  Claim C6, as amended.  Let \<open>add_memory_entry\<close> return an identifier for an entry
  whose customer and project labels are absent or non-empty and whose own metadata
  map has none of the keys the store writes (\<open>reserved_keys\<close>), and let
  \<open>fromisoformat\<close> invert \<open>isoformat\<close> on the entry's date (as Python's does).  Then
  \<open>get_memory_entry\<close> of that identifier returns an entry with the same content, the
  same labels and the same date.
\<close>

theorem add_then_get:
  assumes add: "add_memory_entry L w col entry = (Inr memory_id, w', col')"
    and labels: "me_customer entry \<noteq> Some []" "me_project entry \<noteq> Some []"
    and keys: "dom (me_metadata entry) \<inter> reserved_keys = {}"
    and iso: "fromisoformat (vs_dt L) (isoformat (vs_dt L) (me_date entry)) = Some (me_date entry)"
  shows "\<exists>fetched. get_memory_entry L col' memory_id = Inr (Some fetched) \<and>
           me_id fetched = memory_id \<and>
           me_content fetched = me_content entry \<and>
           me_customer fetched = me_customer entry \<and>
           me_project fetched = me_project entry \<and>
           me_date fetched = me_date entry"
proof -
  from add obtain embedding where
    col': "col' = col(memory_id \<mapsto> \<lparr>row_embedding = embedding,
              row_metadata = entry_metadata L entry, row_document = me_content entry\<rparr>)"
    by (auto simp: add_memory_entry_def uuid4_def collection_add_def Let_def
        split: sum.splits if_splits)
  have got: "collection_get col' memory_id =
        \<lparr>gr_ids = [memory_id], gr_metadatas = [entry_metadata L entry],
         gr_documents = [me_content entry]\<rparr>"
    by (simp add: col' collection_get_def)
  show ?thesis
    by (simp add: get_memory_entry_def got nth_err_def
        build_stored_entry [OF keys labels iso])
qed

lemma str_nat_0: "str_nat 0 = ''0''"
  by code_simp

lemma example_iso:
  "fromisoformat example_dt (isoformat example_dt 1700) = Some 1700"
  unfolding example_dt_def by code_simp

lemma example_uuid: "uuid4 example_world = (''uuid-0'', example_world\<lparr>drawn := 1\<rparr>)"
  by (simp add: uuid4_def example_world_def str_nat_0)

lemma example_add:
  "add_memory_entry example_lib example_world example_collection (example_entry customer md) =
     (Inr ''uuid-0'', example_world\<lparr>drawn := 1\<rparr>,
      example_collection(''uuid-0'' \<mapsto> \<lparr>row_embedding = [6],
         row_metadata = entry_metadata example_lib (example_entry customer md),
         row_document = ''a note''\<rparr>))"
proof -
  have f: "example_collection ''uuid-0'' = None"
    by (simp add: example_collection_def)
  have c: "me_content (example_entry customer md) = ''a note''"
    by (simp add: example_entry_def)
  have e: "encode example_lib ''a note'' = Inr [6]"
    by (simp add: example_lib_def)
  show ?thesis
    by (simp add: add_memory_entry_def example_uuid collection_add_def f e c)
qed

lemma example_get:
  "get_memory_entry example_lib
     (snd (snd (add_memory_entry example_lib example_world example_collection
        (example_entry customer md)))) ''uuid-0'' =
   (case build_memory_entry example_lib ''uuid-0'' ''a note''
           (entry_metadata example_lib (example_entry customer md)) of
      Inl e \<Rightarrow> Inl e | Inr entry \<Rightarrow> Inr (Some entry))"
  by (simp add: example_add get_memory_entry_def collection_get_def nth_err_def)


theorem add_then_get_witness:
  "\<exists>fetched. get_memory_entry example_lib
       (snd (snd (add_memory_entry example_lib example_world example_collection
          (example_entry (Some ''acme'') Map.empty)))) ''uuid-0'' = Inr (Some fetched) \<and>
     me_content fetched = ''a note'' \<and> me_customer fetched = Some ''acme'' \<and>
     me_project fetched = Some ''alpha'' \<and> me_date fetched = 1700"
proof -
  let ?e = "example_entry (Some ''acme'') Map.empty"
  let ?col = "snd (snd (add_memory_entry example_lib example_world example_collection ?e))"
  have add: "add_memory_entry example_lib example_world example_collection ?e =
               (Inr ''uuid-0'', example_world\<lparr>drawn := 1\<rparr>, ?col)"
    by (simp add: example_add)
  have iso: "fromisoformat (vs_dt example_lib) (isoformat (vs_dt example_lib) (me_date ?e)) = Some (me_date ?e)"
    using example_iso by (simp add: example_lib_def example_entry_def)
  have labels: "me_customer ?e \<noteq> Some []" "me_project ?e \<noteq> Some []"
    by (simp_all add: example_entry_def)
  have keys: "dom (me_metadata ?e) \<inter> reserved_keys = {}"
    by (simp add: example_entry_def)
  from add_then_get [OF add labels keys iso]
  obtain fetched where f: "get_memory_entry example_lib ?col ''uuid-0'' = Inr (Some fetched)"
    "me_content fetched = me_content ?e" "me_customer fetched = me_customer ?e"
    "me_project fetched = me_project ?e" "me_date fetched = me_date ?e"
    by blast
  have "me_content ?e = ''a note''" "me_customer ?e = Some ''acme''"
    "me_project ?e = Some ''alpha''" "me_date ?e = 1700"
    by (simp_all add: example_entry_def)
  with f show ?thesis by metis
qed

lemma example_build_customer:
  assumes "(md ''customer'' = None \<and> v = or_empty customer) \<or> md ''customer'' = Some (VStr v)"
    and "md ''date'' = None" "md ''source_document_id'' = None" "md ''chunk_index'' = None"
     "md ''project'' = None" "md ''importance_score'' = None"
  shows "map_sum id me_customer
      (build_memory_entry example_lib i c (entry_metadata example_lib (example_entry customer md)))
     = Inr (if v = [] then None else Some v)"
proof -
  let ?md = "entry_metadata example_lib (example_entry customer md)"
  have 1: "?md ''customer'' = Some (VStr v)"
    using assms(1) by (auto simp: entry_metadata_def example_entry_def map_add_def)
  have 2: "?md ''project'' = Some (VStr ''alpha'')" "?md ''date'' = Some (VStr (isoformat example_dt 1700))"
    "?md ''source_document_id'' = Some (VStr ''n1'')" "?md ''chunk_index'' = Some (VInt 0)"
    "?md ''importance_score'' = Some (VFloat 1)"
    using assms(2-)
    by (simp_all add: entry_metadata_def example_entry_def map_add_def or_empty_def example_lib_def)
  have v: "vs_dt example_lib = example_dt"
    by (simp add: example_lib_def)
  have d: "parse_date example_lib ?md = Inr 1700"
    by (simp add: parse_date_def subscript_def 2 v example_iso)
  show ?thesis
    unfolding build_memory_entry_def
    by (simp add: d subscript_def 1 2 get_or_none_def validate_opt_str_def validate_str_def
        validate_int_def validate_float_def)
qed

lemma example_bad_date:
  "get_memory_entry example_lib
     (snd (snd (add_memory_entry example_lib example_world example_collection
        (example_entry (Some ''acme'') [''date'' \<mapsto> VStr ''soon''])))) ''uuid-0''
   = Inl (Err ValueError ''Invalid isoformat string: soon'')"
proof -
  let ?md = "entry_metadata example_lib (example_entry (Some ''acme'') [''date'' \<mapsto> VStr ''soon''])"
  have 1: "?md ''date'' = Some (VStr ''soon'')"
    by (simp add: entry_metadata_def example_entry_def map_add_def)
  have 2: "fromisoformat (vs_dt example_lib) ''soon'' = None"
    by (simp add: example_lib_def example_dt_def)
  have "parse_date example_lib ?md = Inl (Err ValueError ''Invalid isoformat string: soon'')"
    by (simp add: parse_date_def subscript_def 1 2)
  then have "build_memory_entry example_lib ''uuid-0'' ''a note'' ?md
               = Inl (Err ValueError ''Invalid isoformat string: soon'')"
    by (simp add: build_memory_entry_def)
  then show ?thesis
    unfolding example_get by simp
qed

text \<open>
  Without those conditions the round trip changes the labels: an empty customer
  label is stored as the empty-string sentinel and read back as absent, and a
  \<open>customer\<close> key in the entry's metadata map overwrites the label on
  \<open>metadata.update\<close>; a \<open>date\<close> key overwrites the ISO date, and then the fetch raises.
\<close>

theorem add_then_get_counterexample:
  "map_sum id (map_option me_customer)
     (get_memory_entry example_lib
        (snd (snd (add_memory_entry example_lib example_world example_collection
           (example_entry (Some []) Map.empty)))) ''uuid-0'') = Inr (Some None) \<and>
   map_sum id (map_option me_customer)
     (get_memory_entry example_lib
        (snd (snd (add_memory_entry example_lib example_world example_collection
           (example_entry (Some ''acme'') [''customer'' \<mapsto> VStr ''other''])))) ''uuid-0'')
     = Inr (Some (Some ''other'')) \<and>
   get_memory_entry example_lib
     (snd (snd (add_memory_entry example_lib example_world example_collection
        (example_entry (Some ''acme'') [''date'' \<mapsto> VStr ''soon''])))) ''uuid-0''
     = Inl (Err ValueError ''Invalid isoformat string: soon'')"
proof -
  have a: "map_sum id me_customer (build_memory_entry example_lib ''uuid-0'' ''a note''
             (entry_metadata example_lib (example_entry (Some []) Map.empty))) = Inr None"
    using example_build_customer [of Map.empty "[]" "Some []"] by (simp add: or_empty_def)
  have b: "map_sum id me_customer (build_memory_entry example_lib ''uuid-0'' ''a note''
             (entry_metadata example_lib (example_entry (Some ''acme'') [''customer'' \<mapsto> VStr ''other'']))) = Inr (Some ''other'')"
    using example_build_customer [of "[''customer'' \<mapsto> VStr ''other'']" "''other''" "Some ''acme''"] by simp
  from a b have "map_sum id (map_option me_customer)
     (get_memory_entry example_lib
        (snd (snd (add_memory_entry example_lib example_world example_collection
           (example_entry (Some []) Map.empty)))) ''uuid-0'') = Inr (Some None) \<and>
   map_sum id (map_option me_customer)
     (get_memory_entry example_lib
        (snd (snd (add_memory_entry example_lib example_world example_collection
           (example_entry (Some ''acme'') [''customer'' \<mapsto> VStr ''other''])))) ''uuid-0'')
     = Inr (Some (Some ''other''))"
    unfolding example_get by (auto split: sum.splits)
  with example_bad_date show ?thesis by simp
qed

section \<open>Properties of document ingestion\<close>

lemma strip_empty_iff: "strip s = [] \<longleftrightarrow> list_all is_space s"
proof
  assume "strip s = []"
  then have "dropWhile is_space s = []"
    by (simp add: strip_def dropWhile_eq_Nil_conv) (metis dropWhile_eq_Nil_conv set_rev rev_is_Nil_conv dropWhile_idem)
  then show "list_all is_space s"
    by (simp add: dropWhile_eq_Nil_conv list_all_iff)
next
  assume "list_all is_space s"
  then have d: "dropWhile is_space s = []"
    by (simp add: dropWhile_eq_Nil_conv list_all_iff)
  show "strip s = []"
    by (simp only: strip_def d rev.simps dropWhile.simps)
qed

lemma find_processor_None:
  "find_processor ps filename = None \<longleftrightarrow> list_all (\<lambda>p. \<not> can_process p filename) ps"
  by (induction ps) auto

lemma find_processor_first:
  "find_processor ps filename = Some p \<longleftrightarrow>
     (\<exists>pre post. ps = pre @ p # post \<and> can_process p filename \<and>
        list_all (\<lambda>q. \<not> can_process q filename) pre)"
proof (induction ps)
  case Nil
  then show ?case by simp
next
  case (Cons q ps)
  show ?case
  proof (cases "can_process q filename")
    case True
    have "(\<exists>pre post. q # ps = pre @ p # post \<and> can_process p filename \<and>
        list_all (\<lambda>q. \<not> can_process q filename) pre) \<longleftrightarrow> q = p"
    proof
      assume "\<exists>pre post. q # ps = pre @ p # post \<and> can_process p filename \<and>
        list_all (\<lambda>q. \<not> can_process q filename) pre"
      then obtain pre post where d: "q # ps = pre @ p # post"
        "list_all (\<lambda>q. \<not> can_process q filename) pre" by blast
      show "q = p"
      proof (cases pre)
        case Nil
        with d show ?thesis by simp
      next
        case (Cons a as)
        with d True show ?thesis by simp
      qed
    next
      assume "q = p"
      with True have "q # ps = [] @ p # ps \<and> can_process p filename \<and>
        list_all (\<lambda>q. \<not> can_process q filename) []" by simp
      then show "\<exists>pre post. q # ps = pre @ p # post \<and> can_process p filename \<and>
        list_all (\<lambda>q. \<not> can_process q filename) pre" by blast
    qed
    with True show ?thesis by auto
  next
    case False
    have "(\<exists>pre post. q # ps = pre @ p # post \<and> can_process p filename \<and>
        list_all (\<lambda>q. \<not> can_process q filename) pre) \<longleftrightarrow>
        (\<exists>pre post. ps = pre @ p # post \<and> can_process p filename \<and>
        list_all (\<lambda>q. \<not> can_process q filename) pre)"
    proof
      assume "\<exists>pre post. q # ps = pre @ p # post \<and> can_process p filename \<and>
        list_all (\<lambda>q. \<not> can_process q filename) pre"
      then obtain pre post where d: "q # ps = pre @ p # post" "can_process p filename"
        "list_all (\<lambda>q. \<not> can_process q filename) pre" by blast
      show "\<exists>pre post. ps = pre @ p # post \<and> can_process p filename \<and>
        list_all (\<lambda>q. \<not> can_process q filename) pre"
      proof (cases pre)
        case Nil
        with d False show ?thesis by simp
      next
        case (Cons a as)
        with d have "ps = as @ p # post \<and> can_process p filename \<and>
           list_all (\<lambda>q. \<not> can_process q filename) as" by simp
        then show ?thesis by blast
      qed
    next
      assume "\<exists>pre post. ps = pre @ p # post \<and> can_process p filename \<and>
        list_all (\<lambda>q. \<not> can_process q filename) pre"
      then obtain pre post where d: "ps = pre @ p # post" "can_process p filename"
        "list_all (\<lambda>q. \<not> can_process q filename) pre" by blast
      with False have "q # ps = (q # pre) @ p # post \<and> can_process p filename \<and>
        list_all (\<lambda>q. \<not> can_process q filename) (q # pre)" by simp
      then show "\<exists>pre post. q # ps = pre @ p # post \<and> can_process p filename \<and>
        list_all (\<lambda>q. \<not> can_process q filename) pre" by blast
    qed
    with False Cons.IH show ?thesis by simp
  qed
qed

text \<open>
  Claim C8.  For every file name, content and labels: when no processor of the
  registration list accepts the file name, \<open>process_document\<close> raises the
  \<open>ValueError\<close> "No processor available for file type", whatever the content; when
  the chosen processor extracts only whitespace it raises "Document appears to be
  empty or unreadable"; a document that is returned has content that is not all
  whitespace, extracted by the chosen processor; and the chosen processor is the
  first one of the list, in order, that accepts the file name.
\<close>

theorem process_document_failures:
  "(list_all (\<lambda>p. \<not> can_process p filename) processors \<longrightarrow>
      process_document L w filename file_content customer project md =
        (Inl (Err ValueError (''No processor available for file type: '' @ filename)), w)) \<and>
   (find_processor processors filename = Some p \<and> extract_text L p file_content = Inr content \<and>
      list_all is_space content \<longrightarrow>
      process_document L w filename file_content customer project md =
        (Inl (Err ValueError ''Document appears to be empty or unreadable''), w)) \<and>
   (fst (process_document L w filename file_content customer project md) = Inr doc \<longrightarrow>
      \<not> list_all is_space (doc_content doc) \<and>
      (\<exists>q. find_processor processors filename = Some q \<and>
           extract_text L q file_content = Inr (doc_content doc))) \<and>
   (find_processor processors filename = Some p \<longleftrightarrow>
      (\<exists>pre post. processors = pre @ p # post \<and> can_process p filename \<and>
         list_all (\<lambda>q. \<not> can_process q filename) pre))"
proof -
  have 1: "process_document L w filename file_content customer project md =
        (Inl (Err ValueError (''No processor available for file type: '' @ filename)), w)"
    if "list_all (\<lambda>p. \<not> can_process p filename) processors"
    using that find_processor_None [of processors filename]
    by (simp add: process_document_def)
  have 2: "process_document L w filename file_content customer project md =
        (Inl (Err ValueError ''Document appears to be empty or unreadable''), w)"
    if "find_processor processors filename = Some p" "extract_text L p file_content = Inr content"
      "list_all is_space content"
    using that by (simp add: process_document_def strip_empty_iff)
  have 3: "\<not> list_all is_space (doc_content doc) \<and>
      (\<exists>q. find_processor processors filename = Some q \<and>
           extract_text L q file_content = Inr (doc_content doc))"
    if "fst (process_document L w filename file_content customer project md) = Inr doc"
    using that
    by (auto simp: process_document_def strip_empty_iff Let_def uuid4_def utcnow_def
        split: option.splits sum.splits if_splits)
  from 1 2 3 find_processor_first [of processors filename p] show ?thesis by blast
qed


lemma example_unsupported: "list_all (\<lambda>p. \<not> can_process p ''notes.xyz'') processors"
  by code_simp

lemma example_pdf: "find_processor processors ''Report.PDF'' = Some PDFProcessor"
  by code_simp

lemma example_blank_pdf: "extract_text example_doc_lib PDFProcessor [0x61] = Inr []"
  by code_simp

theorem process_document_failures_witness:
  "process_document example_doc_lib example_world ''notes.xyz'' [0x61] None None None =
     (Inl (Err ValueError ''No processor available for file type: notes.xyz''), example_world) \<and>
   process_document example_doc_lib example_world ''Report.PDF'' [0x61] None None None =
     (Inl (Err ValueError ''Document appears to be empty or unreadable''), example_world)"
  using process_document_failures [of "''notes.xyz''" example_doc_lib example_world "[0x61]"
      None None None PDFProcessor "[]"]
    process_document_failures [of "''Report.PDF''" example_doc_lib example_world "[0x61]"
      None None None PDFProcessor "[]"]
    example_unsupported example_pdf example_blank_pdf
  by simp

text \<open>
  Claim C10.  For every byte string and whatever the strict codecs do,
  \<open>TxtProcessor.extract_text\<close> returns a string: the stripped result of the first of
  UTF-8, UTF-16 and Latin-1 that decodes, and Latin-1 always does.  So the loop
  never reaches cp1252 nor the decoding with replacement: the result does not
  change when these two are replaced by any other functions.
\<close>

theorem txt_extract_text_total:
  "extract_text L TxtProcessor file_content =
     Inr (strip (case decode_utf8 L file_content of
                   Inr s \<Rightarrow> s
                 | Inl _ \<Rightarrow> (case decode_utf16 L file_content of
                              Inr s \<Rightarrow> s
                            | Inl _ \<Rightarrow> decode_latin1 file_content))) \<and>
   try_encodings L [UTF8, UTF16, Latin1] file_content \<noteq> None \<and>
   extract_text (L\<lparr>decode_cp1252 := cp1252, decode_utf8_replace := replacing\<rparr>)
       TxtProcessor file_content
     = extract_text L TxtProcessor file_content"
  by (simp split: sum.splits)

lemma example_latin1: "strip (decode_latin1 [0x61, 0x20]) = ''a''"
  by code_simp

theorem txt_extract_text_total_witness:
  "extract_text example_doc_lib TxtProcessor [0x61, 0x20] = Inr ''a''"
  using txt_extract_text_total [of example_doc_lib "[0x61, 0x20]"] example_latin1
  by (simp add: example_doc_lib_def)

section \<open>Properties of the RAG engine\<close>

lemma create_conversation_default:
  assumes "create_conversation D w eng None None None = (c, w', eng')"
  shows "conv_id c = uuids w (drawn w)" "conv_messages c = []"
    "conv_created_at c = clock w (Suc (reads w))"
    "conv_updated_at c = clock w (Suc (Suc (reads w)))"
    "conversations eng' = (conversations eng)(uuids w (drawn w) \<mapsto> c)"
    "clock w' = clock w" "reads w' = reads w + 3" "uuids w' = uuids w" "drawn w' = Suc (drawn w)"
  using assms
  by (auto simp: create_conversation_def uuid4_def utcnow_def Let_def)

lemma get_or_create_cases:
  assumes "get_or_create_conversation D w eng cid = (key, c, w', eng')"
  shows "(\<exists>i. cid = Some i \<and> i \<noteq> [] \<and> conversations eng i = Some c \<and> key = i \<and> w' = w \<and> eng' = eng) \<or>
         ((cid = None \<or> cid = Some [] \<or> (\<exists>i. cid = Some i \<and> conversations eng i = None)) \<and>
          create_conversation D w eng None None None = (c, w', eng') \<and> key = conv_id c)"
proof (cases "case cid of None \<Rightarrow> None
            | Some i \<Rightarrow> if i \<noteq> [] then map_option (Pair i) (conversations eng i) else None")
  case None
  then have a: "cid = None \<or> cid = Some [] \<or> (\<exists>i. cid = Some i \<and> conversations eng i = None)"
    by (auto split: option.splits if_splits)
  from None assms have "create_conversation D w eng None None None = (c, w', eng') \<and> key = conv_id c"
    by (auto simp: get_or_create_conversation_def Let_def split: prod.splits)
  with a show ?thesis by blast
next
  case (Some p)
  obtain i c0 where p: "p = (i, c0)" by (cases p)
  from Some p have "cid = Some i \<and> i \<noteq> [] \<and> conversations eng i = Some c0"
    by (auto split: option.splits if_splits)
  moreover from Some p assms have "key = i \<and> c = c0 \<and> w' = w \<and> eng' = eng"
    by (simp add: get_or_create_conversation_def)
  ultimately show ?thesis by blast
qed

lemma get_or_create_registered:
  assumes "get_or_create_conversation D w eng cid = (key, c, w', eng')"
  shows "conversations eng' key = Some c" "clock w' = clock w" "reads w \<le> reads w'"
proof -
  from get_or_create_cases [OF assms]
  consider "conversations eng key = Some c" "w' = w" "eng' = eng"
    | "create_conversation D w eng None None None = (c, w', eng')" "key = conv_id c"
    by blast
  then have "conversations eng' key = Some c \<and> clock w' = clock w \<and> reads w \<le> reads w'"
  proof cases
    case 1
    then show ?thesis by simp
  next
    case 2
    from create_conversation_default [OF 2(1)] 2(2) show ?thesis by simp
  qed
  then show "conversations eng' key = Some c" "clock w' = clock w" "reads w \<le> reads w'"
    by simp_all
qed

lemma get_or_create_fresh:
  assumes "cid = None \<or> cid = Some [] \<or> (\<exists>i. cid = Some i \<and> conversations eng i = None)"
  shows "\<exists>c w'. get_or_create_conversation D w eng cid =
           (uuids w (drawn w), c, w', eng\<lparr>conversations := (conversations eng)(uuids w (drawn w) \<mapsto> c)\<rparr>) \<and>
          conv_id c = uuids w (drawn w) \<and> conv_messages c = []"
proof -
  obtain c w' eng' where cr: "create_conversation D w eng None None None = (c, w', eng')"
    by (metis prod_cases3)
  from assms have "(case cid of None \<Rightarrow> None
            | Some i \<Rightarrow> if i \<noteq> [] then map_option (Pair i) (conversations eng i) else None) = None"
    by (auto split: option.splits)
  then have g: "get_or_create_conversation D w eng cid = (conv_id c, c, w', eng')"
    by (simp add: get_or_create_conversation_def cr)
  from create_conversation_default [OF cr]
  have "conv_id c = uuids w (drawn w)" "conv_messages c = []"
    "eng' = eng\<lparr>conversations := (conversations eng)(uuids w (drawn w) \<mapsto> c)\<rparr>"
    by auto
  with g show ?thesis by auto
qed


lemma utcnow_world:
  "snd (utcnow w) = w\<lparr>reads := Suc (reads w)\<rparr>" "fst (utcnow w) = clock w (reads w)"
  by (simp_all add: utcnow_def)

text \<open>
  Claim C9.  Let the query name no conversation, or the empty identifier, or one
  that is not in the table, and let the search raise, or the search return and the
  generation raise.  Then \<open>query\<close> raises that same exception, and the table it leaves
  is the old one plus the conversation created at the start of the call, stored
  under its fresh identifier with an empty message list.
\<close>

theorem query_failure_keeps_conversation:
  assumes absent: "q_conversation_id q = None \<or> q_conversation_id q = Some [] \<or>
        (\<exists>i. q_conversation_id q = Some i \<and> conversations eng i = None)"
    and fails: "vs_search D (q_question q) (q_filters q) (q_max_results q) = Inl e \<or>
        (\<exists>ms. vs_search D (q_question q) (q_filters q) (q_max_results q) = Inr ms \<and>
              llm_generate D (q_question q) (build_context ms) (system_prompt D) (7 / 10) 2048 = Inl e)"
  shows "\<exists>w' c. query D w eng q =
            (Inl e, w', eng\<lparr>conversations := (conversations eng)(uuids w (drawn w) \<mapsto> c)\<rparr>) \<and>
          conv_id c = uuids w (drawn w) \<and> conv_messages c = []"
proof -
  let ?w0 = "w\<lparr>reads := Suc (reads w)\<rparr>"
  let ?k = "uuids w (drawn w)"
  from get_or_create_fresh [OF absent, of D ?w0]
  obtain c w1 where g: "get_or_create_conversation D ?w0 eng (q_conversation_id q) =
      (?k, c, w1, eng\<lparr>conversations := (conversations eng)(?k \<mapsto> c)\<rparr>)"
    and c: "conv_id c = ?k" "conv_messages c = []"
    by auto
  from fails have "query D w eng q =
      (Inl e, w1, eng\<lparr>conversations := (conversations eng)(?k \<mapsto> c)\<rparr>)"
    by (auto simp: query_def utcnow_def g Let_def)
  with c show ?thesis by blast
qed




lemma update_conversation_result:
  assumes "conversations eng key = Some c"
  shows "update_conversation D w eng key question answer =
     (w\<lparr>reads := reads w + 3\<rparr>,
      eng\<lparr>conversations := (conversations eng)(key \<mapsto>
         c\<lparr>conv_messages := conv_messages c @
              [\<lparr>msg_role = ''user'', msg_content = question,
                msg_timestamp = isoformat (rd_dt D) (clock w (reads w))\<rparr>,
               \<lparr>msg_role = ''assistant'', msg_content = answer,
                msg_timestamp = isoformat (rd_dt D) (clock w (Suc (reads w)))\<rparr>],
            conv_updated_at := clock w (Suc (Suc (reads w)))\<rparr>)\<rparr>)"
  using assms by (simp add: update_conversation_def utcnow_def Let_def)


lemma engine_inv_empty: "engine_inv w \<lparr>conversations = Map.empty\<rparr>"
  by (simp add: engine_inv_def)

lemma engine_inv_later:
  assumes "engine_inv w eng" "mono (clock w)" "clock w' = clock w" "reads w \<le> reads w'"
  shows "engine_inv w' eng"
  unfolding engine_inv_def
proof (intro allI impI)
  fix k c assume "conversations eng k = Some c"
  with assms(1) have "conv_created_at c \<le> conv_updated_at c" "conv_updated_at c \<le> clock w (reads w)"
    by (auto simp: engine_inv_def)
  moreover have "clock w (reads w) \<le> clock w (reads w')"
    using assms(2,4) by (simp add: monoD)
  ultimately show "conv_created_at c \<le> conv_updated_at c \<and> conv_updated_at c \<le> clock w' (reads w')"
    using assms(3) by simp
qed

lemma engine_inv_get_or_create:
  assumes inv: "engine_inv w eng" and mono: "mono (clock w)"
    and res: "get_or_create_conversation D w eng cid = (key, c, w1, eng1)"
  shows "engine_inv w1 eng1"
proof -
  from get_or_create_cases [OF res]
  consider "w1 = w" "eng1 = eng"
    | "create_conversation D w eng None None None = (c, w1, eng1)"
    by blast
  then show ?thesis
  proof cases
    case 1
    with inv show ?thesis by simp
  next
    case 2
    note d = create_conversation_default [OF 2]
    have l: "engine_inv w1 eng"
      using engine_inv_later [OF inv mono d(6)] d(7) by simp
    have "clock w (Suc (reads w)) \<le> clock w (Suc (Suc (reads w)))"
      "clock w (Suc (Suc (reads w))) \<le> clock w (reads w + 3)"
      using mono by (simp_all add: monoD)
    with d have "conv_created_at c \<le> conv_updated_at c \<and> conv_updated_at c \<le> clock w1 (reads w1)"
      by simp
    with l d(5) show ?thesis
      by (auto simp: engine_inv_def)
  qed
qed

lemma engine_inv_update:
  assumes inv: "engine_inv w eng" and mono: "mono (clock w)"
    and upd: "update_conversation D w eng key question answer = (w', eng')"
  shows "engine_inv w' eng' \<and> clock w' = clock w \<and> reads w \<le> reads w'"
proof (cases "conversations eng key")
  case None
  with upd have e: "eng' = eng" "w' = w\<lparr>reads := reads w + 3\<rparr>"
    by (auto simp: update_conversation_def utcnow_def Let_def)
  with engine_inv_later [OF inv mono, of w'] show ?thesis by simp
next
  case (Some c)
  from upd update_conversation_result [OF Some, of D w question answer]
  have e: "w' = w\<lparr>reads := reads w + 3\<rparr>"
    "conversations eng' = (conversations eng)(key \<mapsto>
         c\<lparr>conv_messages := conv_messages c @
              [\<lparr>msg_role = ''user'', msg_content = question,
                msg_timestamp = isoformat (rd_dt D) (clock w (reads w))\<rparr>,
               \<lparr>msg_role = ''assistant'', msg_content = answer,
                msg_timestamp = isoformat (rd_dt D) (clock w (Suc (reads w)))\<rparr>],
            conv_updated_at := clock w (Suc (Suc (reads w)))\<rparr>)"
    by auto
  have l: "engine_inv w' eng"
    using engine_inv_later [OF inv mono, of w'] e(1) by simp
  from inv Some have "conv_created_at c \<le> conv_updated_at c" "conv_updated_at c \<le> clock w (reads w)"
    by (auto simp: engine_inv_def)
  moreover have "clock w (reads w) \<le> clock w (Suc (Suc (reads w)))"
    "clock w (Suc (Suc (reads w))) \<le> clock w (reads w + 3)"
    using mono by (simp_all add: monoD)
  ultimately have "conv_created_at c \<le> clock w (Suc (Suc (reads w)))"
    "clock w (Suc (Suc (reads w))) \<le> clock w' (reads w')"
    using e(1) by simp_all
  with l e show ?thesis
    by (auto simp: engine_inv_def)
qed

lemma engine_inv_query:
  assumes inv: "engine_inv w eng" and mono: "mono (clock w)"
    and run: "query D w eng q = (r, w', eng')"
  shows "engine_inv w' eng' \<and> clock w' = clock w"
proof -
  let ?w0 = "w\<lparr>reads := Suc (reads w)\<rparr>"
  obtain key c w1 eng1 where
    res: "get_or_create_conversation D ?w0 eng (q_conversation_id q) = (key, c, w1, eng1)"
    by (metis prod_cases4)
  have i0: "engine_inv ?w0 eng"
    using engine_inv_later [OF inv mono, of ?w0] by simp
  have m0: "mono (clock ?w0)" using mono by simp
  have i1: "engine_inv w1 eng1"
    using engine_inv_get_or_create [OF i0 m0 res] .
  have c1: "clock w1 = clock w"
    using get_or_create_registered(2) [OF res] by simp
  have m1: "mono (clock w1)" using mono c1 by simp
  show ?thesis
  proof (cases "\<exists>ms lr. vs_search D (q_question q) (q_filters q) (q_max_results q) = Inr ms \<and>
      llm_generate D (q_question q) (build_context ms) (system_prompt D) (7 / 10) 2048 = Inr lr")
    case False
    with run have "w' = w1" "eng' = eng1"
      by (auto simp: query_def utcnow_def res Let_def split: sum.splits)
    with i1 c1 show ?thesis by simp
  next
    case True
    then obtain ms lr where
      s: "vs_search D (q_question q) (q_filters q) (q_max_results q) = Inr ms" and
      g: "llm_generate D (q_question q) (build_context ms) (system_prompt D) (7 / 10) 2048 = Inr lr"
      by blast
    let ?w2 = "w1\<lparr>reads := Suc (reads w1)\<rparr>"
    from run have u: "update_conversation D ?w2 eng1 key (q_question q) (lr_response lr) = (w', eng')"
      by (auto simp: query_def utcnow_def res s g Let_def split: prod.splits)
    have i2: "engine_inv ?w2 eng1"
      using engine_inv_later [OF i1 m1, of ?w2] by simp
    have m2: "mono (clock ?w2)" using m1 by simp
    from engine_inv_update [OF i2 m2 u] c1 show ?thesis by simp
  qed
qed


lemma str_nat_small: "str_nat 0 = ''0''" "str_nat (Suc 0) = ''1''" "str_nat 1 = ''1''"
  by code_simp+

lemma example_uuids:
  "uuids example_world 0 = ''uuid-0''" "uuids example_world (Suc 0) = ''uuid-1''"
  "drawn example_world = 0"
  by (simp_all add: example_world_def str_nat_small)


theorem query_failure_keeps_conversation_witness:
  "\<exists>w' c. query (example_deps\<lparr>vs_search := (\<lambda>query filters top_k. Inl (Err ConnectionError ''no route to Chroma''))\<rparr>)
             example_world example_engine example_query =
           (Inl (Err ConnectionError ''no route to Chroma''), w',
            example_engine\<lparr>conversations := (conversations example_engine)(''uuid-0'' \<mapsto> c)\<rparr>) \<and>
          conv_id c = ''uuid-0'' \<and> conv_messages c = []"
  using query_failure_keeps_conversation
    [of example_query example_engine
      "example_deps\<lparr>vs_search := (\<lambda>query filters top_k. Inl (Err ConnectionError ''no route to Chroma''))\<rparr>"
      "Err ConnectionError ''no route to Chroma''" example_world]
  by (simp add: example_query_def example_uuids)






lemma delete_conversation_absent:
  "conversations eng conversation_id = None \<Longrightarrow>
     delete_conversation eng conversation_id = (False, eng)"
  by (simp add: delete_conversation_def)

lemma delete_conversation_twice:
  "delete_conversation (snd (delete_conversation eng conversation_id)) conversation_id
     = (False, snd (delete_conversation eng conversation_id))"
  by (simp add: delete_conversation_def)

lemma delete_memory_entry_always_true:
  "fst (delete_memory_entry col memory_id) = Inr True"
  by (simp add: delete_memory_entry_def)



end
